theory Spec2Isabelle
  imports Complex_Main
begin

section \<open>Numbers\<close>

text \<open>
  A JavaScript number is an IEEE 754 double: a finite value, an infinity or NaN. The
  finite values are kept as the reals they denote. The sign of a zero is not kept: it
  shows only in the sign of a quotient by zero, and every zero divisor is taken as \<open>+0\<close>.
  The rounding of each operation is written out where a result decides an exit or the
  quantity of an order (the exit check and the executor's quantization and checks); the
  moving averages, the average fill price and the daily profit are the exact values.
\<close>

datatype js_number = Finite real | PlusInfinity | MinusInfinity | NaN

text \<open>\<open>2^e\<close> for an integer exponent.\<close>

definition pow2 :: "int \<Rightarrow> real" where
  "pow2 e = (if 0 \<le> e then 2 ^ nat e else 1 / 2 ^ nat (- e))"

text \<open>
  The binary exponent of a positive number, \<open>floor (log2 a)\<close>, found by halving or
  doubling at most \<open>k\<close> times; the exponents of the doubles lie between -1074 and 1023.
\<close>

fun binexp :: "nat \<Rightarrow> real \<Rightarrow> int" where
  "binexp 0 a = 0"
| "binexp (Suc k) a =
     (if 2 \<le> a then binexp k (a / 2) + 1
      else if a < 1 then binexp k (a * 2) - 1
      else 0)"

text \<open>The nearest integer, the even one of two equally near.\<close>

definition round_half_even :: "real \<Rightarrow> int" where
  "round_half_even y =
     (let f = \<lfloor>y\<rfloor>; r = y - of_int f
      in if r < 1 / 2 then f else if 1 / 2 < r then f + 1 else if even f then f else f + 1)"

text \<open>
  Rounding to the nearest double, ties to even, with an unbounded exponent: 53
  significant bits, and the fixed spacing \<open>2^-1074\<close> of the subnormal numbers at the bottom.
\<close>

definition dbl :: "real \<Rightarrow> real" where
  "dbl x =
     (if x = 0 then 0
      else
        let e = max (binexp 1100 \<bar>x\<bar> - 52) (- 1074);
            m = round_half_even (\<bar>x\<bar> / pow2 e)
        in sgn x * (of_int m * pow2 e))"

text \<open>The result of an arithmetic operation whose exact value is \<open>x\<close>: rounded, or overflowed.\<close>

definition fl :: "real \<Rightarrow> js_number" where
  "fl x =
     (if pow2 1024 \<le> dbl x then PlusInfinity
      else if dbl x \<le> - pow2 1024 then MinusInfinity
      else Finite (dbl x))"

fun js_neg :: "js_number \<Rightarrow> js_number" where
  "js_neg (Finite x) = Finite (- x)"
| "js_neg PlusInfinity = MinusInfinity"
| "js_neg MinusInfinity = PlusInfinity"
| "js_neg NaN = NaN"

fun js_sub :: "js_number \<Rightarrow> js_number \<Rightarrow> js_number" where
  "js_sub NaN b = NaN"
| "js_sub a NaN = NaN"
| "js_sub (Finite x) (Finite y) = fl (x - y)"
| "js_sub PlusInfinity PlusInfinity = NaN"
| "js_sub MinusInfinity MinusInfinity = NaN"
| "js_sub PlusInfinity b = PlusInfinity"
| "js_sub MinusInfinity b = MinusInfinity"
| "js_sub a PlusInfinity = MinusInfinity"
| "js_sub a MinusInfinity = PlusInfinity"

fun js_mul :: "js_number \<Rightarrow> js_number \<Rightarrow> js_number" where
  "js_mul NaN b = NaN"
| "js_mul a NaN = NaN"
| "js_mul (Finite x) (Finite y) = fl (x * y)"
| "js_mul (Finite x) PlusInfinity =
     (if x = 0 then NaN else if 0 < x then PlusInfinity else MinusInfinity)"
| "js_mul (Finite x) MinusInfinity =
     (if x = 0 then NaN else if 0 < x then MinusInfinity else PlusInfinity)"
| "js_mul PlusInfinity (Finite y) =
     (if y = 0 then NaN else if 0 < y then PlusInfinity else MinusInfinity)"
| "js_mul MinusInfinity (Finite y) =
     (if y = 0 then NaN else if 0 < y then MinusInfinity else PlusInfinity)"
| "js_mul PlusInfinity PlusInfinity = PlusInfinity"
| "js_mul PlusInfinity MinusInfinity = MinusInfinity"
| "js_mul MinusInfinity PlusInfinity = MinusInfinity"
| "js_mul MinusInfinity MinusInfinity = PlusInfinity"

fun js_div :: "js_number \<Rightarrow> js_number \<Rightarrow> js_number" where
  "js_div NaN b = NaN"
| "js_div a NaN = NaN"
| "js_div (Finite x) (Finite y) =
     (if y = 0
      then (if 0 < x then PlusInfinity else if x < 0 then MinusInfinity else NaN)
      else fl (x / y))"
| "js_div (Finite x) b = Finite 0"
| "js_div PlusInfinity (Finite y) = (if y < 0 then MinusInfinity else PlusInfinity)"
| "js_div MinusInfinity (Finite y) = (if y < 0 then PlusInfinity else MinusInfinity)"
| "js_div a b = NaN"

text \<open>\<open>Math.floor\<close>: the floor of a double is a double.\<close>

fun js_floor :: "js_number \<Rightarrow> js_number" where
  "js_floor (Finite x) = Finite (of_int \<lfloor>x\<rfloor>)"
| "js_floor v = v"

text \<open>\<open>a < b\<close> and \<open>a <= b\<close>: every comparison with NaN is false.\<close>

fun js_lt :: "js_number \<Rightarrow> js_number \<Rightarrow> bool" where
  "js_lt NaN b = False"
| "js_lt a NaN = False"
| "js_lt (Finite x) (Finite y) = (x < y)"
| "js_lt PlusInfinity b = False"
| "js_lt a MinusInfinity = False"
| "js_lt a PlusInfinity = True"
| "js_lt MinusInfinity b = True"

fun js_le :: "js_number \<Rightarrow> js_number \<Rightarrow> bool" where
  "js_le NaN b = False"
| "js_le a NaN = False"
| "js_le (Finite x) (Finite y) = (x \<le> y)"
| "js_le a PlusInfinity = True"
| "js_le MinusInfinity b = True"
| "js_le PlusInfinity b = False"
| "js_le a MinusInfinity = False"

text \<open>
  \<open>parseFloat(v.toFixed(d))\<close>. \<open>toFixed\<close> prints the multiple of \<open>10^-d\<close> nearest to the
  exact value of the double, the larger one of two equally near, computed on the absolute
  value with the sign put back; \<open>parseFloat\<close> rounds that decimal to a double. A value of
  magnitude \<open>10^21\<close> or more, an infinity and NaN are printed by \<open>toString\<close> and read back
  unchanged. \<open>toFixed\<close> accepts up to 100 digits, and the precisions of the configuration
  are taken within that range.
\<close>

fun toFixed :: "js_number \<Rightarrow> nat \<Rightarrow> js_number" where
  "toFixed (Finite x) d =
     (if 10 ^ 21 \<le> \<bar>x\<bar> then Finite x
      else if x < 0 then js_neg (fl (of_int \<lfloor>(- x) * 10 ^ d + 1 / 2\<rfloor> / 10 ^ d))
      else fl (of_int \<lfloor>x * 10 ^ d + 1 / 2\<rfloor> / 10 ^ d))"
| "toFixed v d = v"

text \<open>\<open>xs.slice(-n)\<close>: the last \<open>n\<close> elements, all of \<open>xs\<close> when \<open>n\<close> is 0 (\<open>-0\<close> is \<open>0\<close>).\<close>

definition slice_last :: "nat \<Rightarrow> 'a list \<Rightarrow> 'a list" where
  "slice_last n xs = (if n = 0 then xs else drop (length xs - n) xs)"

section \<open>Configuration (src/config/ConfigManager.js, \<open>config.strategy\<close>)\<close>

text \<open>
  \<open>initialCapital\<close> is read by the RiskManager and is not set by \<open>loadConfig\<close>; it is
  \<open>None\<close> when undefined.
\<close>

record strategy =
  symbol :: string
  shortMASize :: nat
  longMASize :: nat
  investmentAmount :: real
  stopLossPercentage :: real
  takeProfitPercentage :: real
  trailingStopPercentage :: real
  pricePrecision :: nat
  quantityPrecision :: nat
  initialCapital :: "real option"

section \<open>RiskManager (src/core/RiskManager.js)\<close>

record position =
  holding :: bool
  amount :: real
  asset :: string
  quoteAsset :: string

record dailyStats =
  trades :: nat
  profit :: real
  startTime :: int
  dailyProfits :: "(string \<times> real) list"

datatype exit_reason = STOP_LOSS | TAKE_PROFIT | TRAILING_STOP

record exit_action =
  reason :: exit_reason
  price :: real

text \<open>
  \<open>checkExitConditions\<close>, computed in double arithmetic on arguments that are doubles; the
  log lines are left out, they do not change the result. \<open>null\<close> is \<open>None\<close>. The two
  local values first: \<open>(currentPrice - entryPrice) / entryPrice\<close> and
  \<open>highestPrice * (1 - trailingStopPercentage)\<close>.
\<close>

definition currentProfitLossPercentage :: "real \<Rightarrow> real \<Rightarrow> js_number" where
  "currentProfitLossPercentage currentPrice entryPrice =
     js_div (js_sub (Finite currentPrice) (Finite entryPrice)) (Finite entryPrice)"

definition trailingStopPrice :: "real \<Rightarrow> real \<Rightarrow> js_number" where
  "trailingStopPrice highestPrice trailingStopPct =
     js_mul (Finite highestPrice) (js_sub (Finite 1) (Finite trailingStopPct))"

definition checkExitConditions ::
  "position \<Rightarrow> real \<Rightarrow> real \<Rightarrow> real \<Rightarrow> real \<Rightarrow> real \<Rightarrow> real \<Rightarrow> exit_action option" where
  "checkExitConditions pos entryPrice highestPrice currentPrice
       stopLossPct takeProfitPct trailingStopPct =
     (if \<not> holding pos then None
      else if js_le (currentProfitLossPercentage currentPrice entryPrice)
                (Finite (- stopLossPct))
      then Some \<lparr>reason = STOP_LOSS, price = currentPrice\<rparr>
      else if js_le (Finite takeProfitPct)
                (currentProfitLossPercentage currentPrice entryPrice)
      then Some \<lparr>reason = TAKE_PROFIT, price = currentPrice\<rparr>
      else if js_le (Finite currentPrice) (trailingStopPrice highestPrice trailingStopPct)
              \<and> entryPrice < highestPrice
      then Some \<lparr>reason = TRAILING_STOP, price = currentPrice\<rparr>
      else None)"

record RiskManager =
  maxDailyLossPercentage :: real
  maxDailyTrades :: nat

text \<open>\<open>config.strategy.initialCapital || 1000\<close>: undefined and 0 are falsy.\<close>

definition baseCapitalForDailyLoss :: "strategy \<Rightarrow> real" where
  "baseCapitalForDailyLoss cfg =
     (case initialCapital cfg of None \<Rightarrow> 1000 | Some c \<Rightarrow> if c = 0 then 1000 else c)"

text \<open>\<open>checkDailyRiskLimits\<close> returns \<open>{canTrade, reason}\<close>; the model returns \<open>canTrade\<close>.\<close>

definition checkDailyRiskLimits :: "RiskManager \<Rightarrow> strategy \<Rightarrow> dailyStats \<Rightarrow> bool" where
  "checkDailyRiskLimits rm cfg stats =
     (if profit stats < 0 \<and>
         baseCapitalForDailyLoss cfg * maxDailyLossPercentage rm \<le> \<bar>profit stats\<bar>
      then False
      else if maxDailyTrades rm \<le> trades stats then False
      else True)"

section \<open>SignalProcessor (src/core/SignalProcessor.js)\<close>

datatype signal = BUY | SELL

record SignalProcessor =
  sp_shortMASize :: nat
  sp_longMASize :: nat
  prices :: "real list"
  shortMA :: "real list"
  longMA :: "real list"

definition SignalProcessor_new :: "strategy \<Rightarrow> SignalProcessor" where
  "SignalProcessor_new cfg =
     \<lparr>sp_shortMASize = shortMASize cfg, sp_longMASize = longMASize cfg,
      prices = [], shortMA = [], longMA = []\<rparr>"

text \<open>The body of the \<open>for\<close> loop of \<open>calculateEMA\<close>.\<close>

definition ema_step :: "real \<Rightarrow> real \<Rightarrow> real \<Rightarrow> real" where
  "ema_step k ema x = x * k + ema * (1 - k)"

text \<open>\<open>for (let i = 1; i < data.length; i++) ema = data[i] * k + ema * (1 - k)\<close>, from index \<open>i\<close>.\<close>

function ema_loop :: "real list \<Rightarrow> real \<Rightarrow> nat \<Rightarrow> real \<Rightarrow> real" where
  "ema_loop data k i ema =
     (if i < length data then ema_loop data k (Suc i) (ema_step k ema (data ! i)) else ema)"
  by pat_completeness auto
termination
  by (relation "measure (\<lambda>(data, k, i, ema). length data - i)") auto

declare ema_loop.simps [simp del]

text \<open>
  \<open>calculateEMA(data, period)\<close>, with \<open>this.prices\<close> as first argument. \<open>data[0]\<close> of an
  empty array is read only when \<open>period\<close> is 0, which no statement below allows; the
  division by \<open>period\<close> is then by a positive number.
\<close>

definition calculateEMA :: "real list \<Rightarrow> real list \<Rightarrow> nat \<Rightarrow> real" where
  "calculateEMA this_prices data period =
     (if length data < period then 0
      else
        let k = 2 / (real period + 1);
            ema0 = (case data of [] \<Rightarrow> 0 | x # _ \<Rightarrow> x);
            ema1 = (if period \<le> length this_prices
                    then foldl (\<lambda>sum val. sum + val) 0 (slice_last period data) / real period
                    else ema0)
        in ema_loop data k 1 ema1)"

definition calculateSMA :: "real list \<Rightarrow> nat \<Rightarrow> real" where
  "calculateSMA data period =
     (if length data < period then 0
      else foldl (\<lambda>acc val. acc + val) 0 (slice_last period data) / real period)"

text \<open>\<open>xs.push(v); if (xs.length > bound) xs.shift()\<close>.\<close>

definition push_bounded :: "nat \<Rightarrow> 'a list \<Rightarrow> 'a \<Rightarrow> 'a list" where
  "push_bounded bound xs v = (let ys = xs @ [v] in if bound < length ys then tl ys else ys)"

definition calculateMovingAverages :: "SignalProcessor \<Rightarrow> SignalProcessor" where
  "calculateMovingAverages sp =
     (if length (prices sp) < sp_longMASize sp then sp\<lparr>shortMA := [], longMA := []\<rparr>
      else
        sp\<lparr>shortMA := push_bounded (sp_shortMASize sp * 2) (shortMA sp)
                        (calculateEMA (prices sp) (prices sp) (sp_shortMASize sp)),
           longMA := push_bounded (sp_longMASize sp * 2) (longMA sp)
                        (calculateEMA (prices sp) (prices sp) (sp_longMASize sp))\<rparr>)"

definition checkSignal :: "SignalProcessor \<Rightarrow> signal option" where
  "checkSignal sp =
     (if length (shortMA sp) < 2 \<or> length (longMA sp) < 2 then None
      else
        let currentShortMA = shortMA sp ! (length (shortMA sp) - 1);
            previousShortMA = shortMA sp ! (length (shortMA sp) - 2);
            currentLongMA = longMA sp ! (length (longMA sp) - 1);
            previousLongMA = longMA sp ! (length (longMA sp) - 2)
        in if previousShortMA \<le> previousLongMA \<and> currentLongMA < currentShortMA then Some BUY
           else if previousLongMA \<le> previousShortMA \<and> currentShortMA < currentLongMA
           then Some SELL
           else None)"

definition processPrice :: "SignalProcessor \<Rightarrow> real \<Rightarrow> signal option \<times> SignalProcessor" where
  "processPrice sp newPrice =
     (let sp1 = sp\<lparr>prices := push_bounded (sp_longMASize sp * 2) (prices sp) newPrice\<rparr>;
          sp2 = calculateMovingAverages sp1
      in (checkSignal sp2, sp2))"

text \<open>\<open>initializeData\<close>: an empty history leaves the processor as it is.\<close>

definition initializeData :: "SignalProcessor \<Rightarrow> real list \<Rightarrow> SignalProcessor" where
  "initializeData sp historicalPrices =
     (if historicalPrices = [] then sp
      else
        let requiredLength = max (sp_shortMASize sp) (sp_longMASize sp) * 2;
            ps = (if requiredLength < length historicalPrices
                  then slice_last requiredLength historicalPrices
                  else historicalPrices)
        in calculateMovingAverages (sp\<lparr>prices := ps\<rparr>))"

text \<open>The signals returned by feeding a sequence of prices one after the other.\<close>

fun feed_prices :: "SignalProcessor \<Rightarrow> real list \<Rightarrow> signal option list" where
  "feed_prices sp [] = []"
| "feed_prices sp (p # ps) = fst (processPrice sp p) # feed_prices (snd (processPrice sp p)) ps"

text \<open>
  The exponential average as the specification words it: seeded with the simple average
  of the first \<open>period\<close> prices, the recurrence applied to the prices after them.
\<close>

definition spec_calculateEMA :: "real list \<Rightarrow> nat \<Rightarrow> real" where
  "spec_calculateEMA data period =
     foldl (ema_step (2 / (real period + 1)))
       (sum_list (take period data) / real period) (drop period data)"

section \<open>Errors, exchange, database\<close>

datatype error =
    TypeError string
  | ExchangeError string
  | DatabaseError string

text \<open>
  \<open>x.f\<close> where \<open>x\<close> may be \<open>undefined\<close> (\<open>None\<close>): reading a member of \<open>undefined\<close>
  throws a TypeError.
\<close>

definition read_member :: "'a option \<Rightarrow> ('a \<Rightarrow> 'b) \<Rightarrow> string \<Rightarrow> error + 'b" where
  "read_member obj field name =
     (case obj of None \<Rightarrow> Inl (TypeError name) | Some x \<Rightarrow> Inr (field x))"

record exchange_filter =
  filterType :: string
  tickSize :: real
  stepSize :: real
  minNotional :: real

record symbol_info =
  si_symbol :: string
  filters :: "exchange_filter list"

record order_request =
  or_symbol :: string
  or_side :: string
  or_type :: string
  or_quantity :: js_number

record order_response =
  orderId :: string
  executedQty :: real
  cummulativeQuoteQty :: real
  status :: string

text \<open>The \<open>tradeDetails\<close> object handed to \<open>StateManager.saveTrade\<close>.\<close>

record trade =
  t_symbol :: string
  t_orderId :: string
  t_side :: string
  t_type :: string
  t_quantity :: real
  t_price :: real
  t_timestamp :: int
  t_profit :: real
  t_reason :: "exit_reason option"

record balance =
  free :: real
  locked :: real

text \<open>A row of the table \<open>bot_state\<close> (src/db/models/BotState.js); \<open>asset\<close> and \<open>quoteAsset\<close> may be null.\<close>

record bot_state_row =
  r_holding :: bool
  r_amount :: real
  r_asset :: "string option"
  r_quoteAsset :: "string option"
  r_entryPrice :: real
  r_highestPrice :: real
  r_lastPrice :: real
  r_dailyStats :: dailyStats
  r_accountBalances :: "string \<rightharpoonup> balance"

record database =
  botStateRow :: "bot_state_row option"
  tradeRows :: "trade list"

text \<open>
  What the collaborators outside the engine do during one call: the exchange's answer to
  an order (\<open>Inl\<close> when \<open>createOrder\<close> throws), whether database statements succeed, the
  clock (\<open>Date.now()\<close>) and the calendar of the process's time zone (\<open>getDate\<close>, \<open>getMonth\<close>,
  \<open>getFullYear\<close> of a timestamp, and the date part of \<open>toISOString\<close>).
\<close>

record environment =
  createOrder :: "order_request \<Rightarrow> error + order_response"
  db_connect_ok :: bool
  db_read_ok :: bool
  db_write_ok :: bool
  now :: int
  localDate :: "int \<Rightarrow> nat \<times> nat \<times> nat"
  isoDate :: "int \<Rightarrow> string"

text \<open>
  What the engine does to the outside, in order: the orders sent, the error lines of the
  log, the notifications and the exit of the process. Warnings and information lines are
  not recorded.
\<close>

datatype event =
    OrderSent order_request
  | ErrorLogged string
  | Notified string
  | ProcessExit nat

section \<open>The objects of the engine\<close>

record TradeExecutor =
  te_symbol :: string
  te_pricePrecision :: nat
  te_quantityPrecision :: nat
  orderInProgress :: bool
  te_symbolInfo :: "symbol_info option"

definition TradeExecutor_new :: "strategy \<Rightarrow> TradeExecutor" where
  "TradeExecutor_new cfg =
     \<lparr>te_symbol = symbol cfg, te_pricePrecision = pricePrecision cfg,
      te_quantityPrecision = quantityPrecision cfg, orderInProgress = False,
      te_symbolInfo = None\<rparr>"

text \<open>
  The StateManager (src/services/StateManager.js). \<open>botInstance\<close> is a reference to the one
  bot object or null: the model keeps whether it is set, and the bot itself is the \<open>bot\<close> of
  the system below. The constructor sets \<open>config\<close>, \<open>logger\<close>, \<open>botId\<close>, the two models and
  \<open>botInstance\<close>, and no method adds a property.
\<close>

record StateManager =
  botId :: string
  botInstance :: bool

record sm_position =
  sm_entryPrice :: real

text \<open>
  \<open>this.stateManager.position\<close>, read by \<open>executeSellOrder\<close>: the StateManager has no
  property of this name, the read yields \<open>undefined\<close>.
\<close>

definition stateManager_position :: "StateManager \<Rightarrow> sm_position option" where
  "stateManager_position sm = None"

record bot =
  isInitialized :: bool
  position :: position
  entryPrice :: real
  highestPrice :: real
  lastPrice :: real
  bot_dailyStats :: dailyStats
  accountBalances :: "string \<rightharpoonup> balance"
  bot_symbolInfo :: symbol_info

record system =
  config :: strategy
  telegramEnabled :: bool
  bot :: bot
  signalProcessor :: SignalProcessor
  riskManager :: RiskManager
  tradeExecutor :: TradeExecutor
  stateManager :: StateManager
  database :: database
  trace :: "event list"

definition emit :: "event \<Rightarrow> system \<Rightarrow> system" where
  "emit ev sys = sys\<lparr>trace := trace sys @ [ev]\<rparr>"

section \<open>StateManager: saveState, saveTrade, updateDailyStats\<close>

definition row_of_bot :: "bot \<Rightarrow> bot_state_row" where
  "row_of_bot b =
     \<lparr>r_holding = holding (position b), r_amount = amount (position b),
      r_asset = Some (asset (position b)), r_quoteAsset = Some (quoteAsset (position b)),
      r_entryPrice = entryPrice b, r_highestPrice = highestPrice b,
      r_lastPrice = lastPrice b, r_dailyStats = bot_dailyStats b,
      r_accountBalances = accountBalances b\<rparr>"

text \<open>\<open>saveState\<close>: a failing upsert is caught and logged, the state in memory stays.\<close>

definition saveState :: "environment \<Rightarrow> system \<Rightarrow> system" where
  "saveState env sys =
     (let sys1 = sys\<lparr>stateManager := (stateManager sys)\<lparr>botInstance := True\<rparr>\<rparr>
      in if db_write_ok env
         then sys1\<lparr>database := (database sys1)\<lparr>botStateRow := Some (row_of_bot (bot sys1))\<rparr>\<rparr>
         else emit (ErrorLogged ''Falha ao salvar estado do bot no DB'') sys1)"

text \<open>
  \<open>saveTrade\<close>: \<open>orderId\<close> is unique in the table \<open>trades\<close> (src/db/models/Trade.js); a
  repeated id raises SequelizeUniqueConstraintError, which is caught and logged as a
  warning; any other failure is caught and logged as an error.
\<close>

definition saveTrade :: "environment \<Rightarrow> trade \<Rightarrow> system \<Rightarrow> system" where
  "saveTrade env tradeDetails sys =
     (if \<not> db_write_ok env
      then emit (ErrorLogged ''Falha ao registrar trade no DB'') sys
      else if t_orderId tradeDetails \<in> set (map t_orderId (tradeRows (database sys)))
      then sys
      else sys\<lparr>database :=
             (database sys)\<lparr>tradeRows := tradeRows (database sys) @ [tradeDetails]\<rparr>\<rparr>)"

text \<open>\<open>updateDailyStats({profit, trades})\<close>: \<open>if (update.profit)\<close> skips 0.\<close>

definition updateDailyStats :: "real \<Rightarrow> nat \<Rightarrow> system \<Rightarrow> system" where
  "updateDailyStats update_profit update_trades sys =
     (if \<not> botInstance (stateManager sys)
      then emit (ErrorLogged ''botInstance nao definido no StateManager'') sys
      else
        let st = bot_dailyStats (bot sys);
            st1 = (if update_profit \<noteq> 0 then st\<lparr>profit := profit st + update_profit\<rparr> else st);
            st2 = (if update_trades \<noteq> 0 then st1\<lparr>trades := trades st1 + update_trades\<rparr>
                   else st1)
        in sys\<lparr>bot := (bot sys)\<lparr>bot_dailyStats := st2\<rparr>\<rparr>)"

section \<open>TradeExecutor (src/core/TradeExecutor.js)\<close>

text \<open>\<open>Math.floor(value / step) * step\<close>, in double arithmetic.\<close>

definition floor_to_step :: "js_number \<Rightarrow> real \<Rightarrow> js_number" where
  "floor_to_step value step = js_mul (js_floor (js_div value (Finite step))) (Finite step)"

text \<open>\<open>applyExchangeFilter(type, value)\<close>.\<close>

definition applyExchangeFilter :: "TradeExecutor \<Rightarrow> string \<Rightarrow> js_number \<Rightarrow> js_number" where
  "applyExchangeFilter ex type value =
     (case te_symbolInfo ex of
        None \<Rightarrow> value
      | Some si \<Rightarrow>
          (case find (\<lambda>f. filterType f = type) (filters si) of
             None \<Rightarrow> value
           | Some f \<Rightarrow>
               if type = ''PRICE_FILTER''
               then toFixed (floor_to_step value (tickSize f)) (te_pricePrecision ex)
               else if type = ''LOT_SIZE''
               then toFixed (floor_to_step value (stepSize f)) (te_quantityPrecision ex)
               else value))"

text \<open>
  \<open>minNotionalFilter && quantity * currentPrice < parseFloat(minNotionalFilter.minNotional)\<close>,
  with \<open>this.symbolInfo\<close> set by \<open>setSymbolInfo\<close> just before.
\<close>

definition below_min_notional :: "TradeExecutor \<Rightarrow> js_number \<Rightarrow> real \<Rightarrow> bool" where
  "below_min_notional ex quantity currentPrice =
     (case te_symbolInfo ex of
        None \<Rightarrow> False
      | Some si \<Rightarrow>
          (case find (\<lambda>f. filterType f = ''MIN_NOTIONAL'') (filters si) of
             None \<Rightarrow> False
           | Some f \<Rightarrow>
               js_lt (js_mul quantity (Finite currentPrice)) (Finite (minNotional f))))"

definition set_orderInProgress :: "bool \<Rightarrow> system \<Rightarrow> system" where
  "set_orderInProgress b sys =
     sys\<lparr>tradeExecutor := (tradeExecutor sys)\<lparr>orderInProgress := b\<rparr>\<rparr>"

definition setSymbolInfo :: "symbol_info \<Rightarrow> system \<Rightarrow> system" where
  "setSymbolInfo si sys = sys\<lparr>tradeExecutor := (tradeExecutor sys)\<lparr>te_symbolInfo := Some si\<rparr>\<rparr>"

record buy_result =
  br_executedQty :: real
  br_avgPrice :: real

record sell_result =
  sr_executedQty :: real
  sr_avgPrice :: real
  sr_profitLoss :: real

text \<open>
  The \<open>try\<close> block of \<open>executeBuyOrder\<close>: \<open>Inl\<close> is a thrown error with the state at the
  throw, \<open>Inr\<close> a return. The quantity is computed in double arithmetic; the average
  price \<open>totalQuoteAmount / executedQty\<close> is the real quotient of an answer with a positive
  executed quantity.
\<close>

definition executeBuyOrder_try ::
  "environment \<Rightarrow> string \<Rightarrow> real \<Rightarrow> real \<Rightarrow> real \<Rightarrow> system
     \<Rightarrow> (error \<times> system) + (buy_result option \<times> system)" where
  "executeBuyOrder_try env pair investmentAmountUsdt currentPrice availableQuoteBalance sys =
     (let ex = tradeExecutor sys;
          quantity = applyExchangeFilter ex ''LOT_SIZE''
                       (js_div (Finite investmentAmountUsdt) (Finite currentPrice))
      in if below_min_notional ex quantity currentPrice
         then Inr (None, set_orderInProgress False sys)
         else if availableQuoteBalance < investmentAmountUsdt
         then Inr (None, set_orderInProgress False sys)
         else
           let req = \<lparr>or_symbol = pair, or_side = ''BUY'', or_type = ''MARKET'',
                      or_quantity = quantity\<rparr>;
               sys1 = emit (OrderSent req) sys
           in case createOrder env req of
                Inl e \<Rightarrow> Inl (e, sys1)
              | Inr order \<Rightarrow>
                  let avgPrice = cummulativeQuoteQty order / executedQty order;
                      sys2 = saveTrade env
                        \<lparr>t_symbol = pair, t_orderId = orderId order, t_side = ''BUY'',
                         t_type = ''MARKET'', t_quantity = executedQty order,
                         t_price = avgPrice, t_timestamp = now env, t_profit = 0,
                         t_reason = None\<rparr> sys1
                  in Inr (Some \<lparr>br_executedQty = executedQty order, br_avgPrice = avgPrice\<rparr>,
                          sys2))"

text \<open>
  \<open>executeBuyOrder\<close>: the guard, the flag, \<open>setSymbolInfo\<close>, then \<open>try\<close>, \<open>catch\<close> (log,
  clear the flag, return null) and \<open>finally\<close> (clear the flag).
\<close>

definition executeBuyOrder ::
  "environment \<Rightarrow> string \<Rightarrow> real \<Rightarrow> real \<Rightarrow> symbol_info \<Rightarrow> real \<Rightarrow> system
     \<Rightarrow> buy_result option \<times> system" where
  "executeBuyOrder env pair investmentAmountUsdt currentPrice symbolInfo availableQuoteBalance sys =
     (if orderInProgress (tradeExecutor sys) then (None, sys)
      else
        let sys1 = setSymbolInfo symbolInfo (set_orderInProgress True sys);
            (res, sys2) =
              (case executeBuyOrder_try env pair investmentAmountUsdt currentPrice
                      availableQuoteBalance sys1 of
                 Inl (e, s) \<Rightarrow>
                   (None, set_orderInProgress False
                            (emit (ErrorLogged ''Falha ao executar ordem de COMPRA'') s))
               | Inr (r, s) \<Rightarrow> (r, s))
        in (res, set_orderInProgress False sys2))"

text \<open>
  The \<open>try\<close> block of \<open>executeSellOrder\<close>. A quantity above the available balance is
  replaced by the quantized balance, and rejected when that is 0. After the order is
  placed the profit is computed from \<open>this.stateManager.position.entryPrice\<close>.
\<close>

definition executeSellOrder_try ::
  "environment \<Rightarrow> position \<Rightarrow> real \<Rightarrow> real \<Rightarrow> exit_reason \<Rightarrow> system
     \<Rightarrow> (error \<times> system) + (sell_result option \<times> system)" where
  "executeSellOrder_try env pos currentPrice availableBaseBalance rsn sys =
     (let ex = tradeExecutor sys;
          quantityToSell = applyExchangeFilter ex ''LOT_SIZE'' (Finite (amount pos))
      in if below_min_notional ex quantityToSell currentPrice
         then Inr (None, set_orderInProgress False sys)
         else
           let insufficient = js_lt (Finite availableBaseBalance) quantityToSell;
               adjusted = (if insufficient
                           then applyExchangeFilter ex ''LOT_SIZE'' (Finite availableBaseBalance)
                           else quantityToSell)
           in if insufficient \<and> adjusted = Finite 0
              then Inr (None, set_orderInProgress False
                                (emit (ErrorLogged ''Quantidade ajustada para zero'') sys))
              else
                let req = \<lparr>or_symbol = te_symbol ex, or_side = ''SELL'', or_type = ''MARKET'',
                           or_quantity = adjusted\<rparr>;
                    sys1 = emit (OrderSent req) sys
                in case createOrder env req of
                     Inl e \<Rightarrow> Inl (e, sys1)
                   | Inr order \<Rightarrow>
                       let avgPrice = cummulativeQuoteQty order / executedQty order
                       in (case read_member (stateManager_position (stateManager sys1))
                                  sm_entryPrice ''entryPrice'' of
                             Inl e \<Rightarrow> Inl (e, sys1)
                           | Inr entry \<Rightarrow>
                               let profitLoss = (avgPrice - entry) * executedQty order;
                                   sys2 = saveTrade env
                                     \<lparr>t_symbol = te_symbol ex, t_orderId = orderId order,
                                      t_side = ''SELL'', t_type = ''MARKET'',
                                      t_quantity = executedQty order, t_price = avgPrice,
                                      t_timestamp = now env, t_profit = profitLoss,
                                      t_reason = Some rsn\<rparr> sys1;
                                   sys3 = updateDailyStats profitLoss 1 sys2
                               in Inr (Some \<lparr>sr_executedQty = executedQty order,
                                              sr_avgPrice = avgPrice,
                                              sr_profitLoss = profitLoss\<rparr>, sys3)))"

definition executeSellOrder ::
  "environment \<Rightarrow> position \<Rightarrow> real \<Rightarrow> symbol_info \<Rightarrow> real \<Rightarrow> exit_reason \<Rightarrow> system
     \<Rightarrow> sell_result option \<times> system" where
  "executeSellOrder env pos currentPrice symbolInfo availableBaseBalance rsn sys =
     (if orderInProgress (tradeExecutor sys) then (None, sys)
      else
        let sys1 = setSymbolInfo symbolInfo (set_orderInProgress True sys);
            (res, sys2) =
              (case executeSellOrder_try env pos currentPrice availableBaseBalance rsn sys1 of
                 Inl (e, s) \<Rightarrow>
                   (None, set_orderInProgress False
                            (emit (ErrorLogged ''Falha ao executar ordem de VENDA'') s))
               | Inr (r, s) \<Rightarrow> (r, s))
        in (res, set_orderInProgress False sys2))"

section \<open>ErrorHandler (src/utils/ErrorHandler.js)\<close>

text \<open>A call either returns, with the process running, or ends the process with an exit code.\<close>

datatype outcome = Running system | Exited nat system

text \<open>
  \<open>handleCriticalError(error, context, shouldExit = true)\<close>: log, notify when Telegram is
  enabled, and \<open>process.exit(1)\<close> unless \<open>shouldExit\<close> is passed as false. An argument
  left out is \<open>None\<close>.
\<close>

definition handleCriticalError :: "error \<Rightarrow> string \<Rightarrow> bool option \<Rightarrow> system \<Rightarrow> outcome" where
  "handleCriticalError err context shouldExit sys =
     (let sys1 = emit (ErrorLogged context) sys;
          sys2 = (if telegramEnabled sys1 then emit (Notified context) sys1 else sys1)
      in if (case shouldExit of None \<Rightarrow> True | Some b \<Rightarrow> b)
         then Exited 1 (emit (ProcessExit 1) (emit (ErrorLogged ''Encerrando o processo'') sys2))
         else Running sys2)"

section \<open>Orchestrator (src/core/BinanceTradingBot.js, \<open>processNewPrice\<close>)\<close>

text \<open>
  Step 2 of the \<open>try\<close> block: when an exit condition holds, sell, then clear the position
  and save. The result of \<open>executeSellOrder\<close> is not read.
\<close>

definition exit_step ::
  "environment \<Rightarrow> exit_action option \<Rightarrow> system \<Rightarrow> (error \<times> system) + system" where
  "exit_step env exitAction sys =
     (case exitAction of
        None \<Rightarrow> Inr sys
      | Some ea \<Rightarrow>
          (case read_member (accountBalances (bot sys) (asset (position (bot sys))))
                  free ''free'' of
             Inl e \<Rightarrow> Inl (e, sys)
           | Inr availableBase \<Rightarrow>
               let sys1 = snd (executeSellOrder env (position (bot sys)) (lastPrice (bot sys))
                                 (bot_symbolInfo (bot sys)) availableBase (reason ea) sys);
                   b1 = bot sys1;
                   b2 = b1\<lparr>position := (position b1)\<lparr>holding := False, amount := 0\<rparr>,
                           entryPrice := 0, highestPrice := 0\<rparr>
               in Inr (saveState env (sys1\<lparr>bot := b2\<rparr>))))"

text \<open>Step 3: without a position and on a BUY signal, check the daily limits and buy.\<close>

definition entry_step ::
  "environment \<Rightarrow> signal option \<Rightarrow> system \<Rightarrow> (error \<times> system) + system" where
  "entry_step env sig sys =
     (if \<not> holding (position (bot sys)) \<and> sig = Some BUY
      then
        if checkDailyRiskLimits (riskManager sys) (config sys) (bot_dailyStats (bot sys))
        then
          (case read_member (accountBalances (bot sys) (quoteAsset (position (bot sys))))
                  free ''free'' of
             Inl e \<Rightarrow> Inl (e, sys)
           | Inr availableQuote \<Rightarrow>
               (case executeBuyOrder env (symbol (config sys)) (investmentAmount (config sys))
                       (lastPrice (bot sys)) (bot_symbolInfo (bot sys)) availableQuote sys of
                  (None, sys1) \<Rightarrow> Inr sys1
                | (Some orderResult, sys1) \<Rightarrow>
                    let b1 = bot sys1;
                        st = bot_dailyStats b1;
                        b2 = b1\<lparr>position := (position b1)\<lparr>holding := True,
                                               amount := br_executedQty orderResult\<rparr>,
                                entryPrice := br_avgPrice orderResult,
                                highestPrice := br_avgPrice orderResult,
                                bot_dailyStats := st\<lparr>trades := trades st + 1\<rparr>\<rparr>
                    in Inr (saveState env (sys1\<lparr>bot := b2\<rparr>))))
        else Inr sys
      else Inr sys)"

text \<open>Step 4: \<open>if (this.position.holding && this.lastPrice > this.highestPrice)\<close>.\<close>

definition update_highestPrice :: "system \<Rightarrow> system" where
  "update_highestPrice sys =
     (if holding (position (bot sys)) \<and> highestPrice (bot sys) < lastPrice (bot sys)
      then sys\<lparr>bot := (bot sys)\<lparr>highestPrice := lastPrice (bot sys)\<rparr>\<rparr>
      else sys)"

text \<open>The exit check of step 2, with the arguments the orchestrator passes.\<close>

definition tick_exitAction :: "system \<Rightarrow> exit_action option" where
  "tick_exitAction sys =
     checkExitConditions (position (bot sys)) (entryPrice (bot sys)) (highestPrice (bot sys))
       (lastPrice (bot sys)) (stopLossPercentage (config sys))
       (takeProfitPercentage (config sys)) (trailingStopPercentage (config sys))"

text \<open>The \<open>try\<close> block of \<open>processNewPrice\<close>: \<open>Inl\<close> is a thrown error with the state at the throw.\<close>

definition processNewPrice_try :: "environment \<Rightarrow> system \<Rightarrow> (error \<times> system) + system" where
  "processNewPrice_try env sys0 =
     (let sig = fst (processPrice (signalProcessor sys0) (lastPrice (bot sys0)));
          sys = sys0\<lparr>signalProcessor :=
                       snd (processPrice (signalProcessor sys0) (lastPrice (bot sys0)))\<rparr>
      in case exit_step env (tick_exitAction sys) sys of
           Inl err \<Rightarrow> Inl err
         | Inr sys2 \<Rightarrow>
             (case entry_step env sig sys2 of
                Inl err \<Rightarrow> Inl err
              | Inr sys3 \<Rightarrow> Inr (update_highestPrice sys3)))"

text \<open>
  \<open>processNewPrice(kline)\<close>, with \<open>kline.close\<close> as argument: the \<open>catch\<close> hands the error
  to \<open>handleCriticalError\<close> with two arguments.
\<close>

definition processNewPrice :: "environment \<Rightarrow> real \<Rightarrow> system \<Rightarrow> outcome" where
  "processNewPrice env close sys =
     (if \<not> isInitialized (bot sys) then Running sys
      else
        let sys1 = sys\<lparr>bot := (bot sys)\<lparr>lastPrice := close\<rparr>\<rparr>
        in case processNewPrice_try env sys1 of
             Inr s \<Rightarrow> Running s
           | Inl (e, s) \<Rightarrow> handleCriticalError e ''Erro ao processar novo preco'' None s)"


section \<open>StateManager: loadState\<close>

text \<open>\<open>s.replace(pat, '')\<close>: the first occurrence of \<open>pat\<close> removed.\<close>

fun remove_first :: "string \<Rightarrow> string \<Rightarrow> string" where
  "remove_first pat [] = []"
| "remove_first pat (c # cs) =
     (if take (length pat) (c # cs) = pat then drop (length pat) (c # cs)
      else c # remove_first pat cs)"

text \<open>\<open>state.asset || dflt\<close>: null and the empty string are falsy.\<close>

definition or_default :: "string option \<Rightarrow> string \<Rightarrow> string" where
  "or_default v dflt = (case v of None \<Rightarrow> dflt | Some x \<Rightarrow> if x = [] then dflt else x)"

definition apply_row :: "strategy \<Rightarrow> bot_state_row \<Rightarrow> bot \<Rightarrow> bot" where
  "apply_row cfg state b =
     b\<lparr>position := (position b)
          \<lparr>holding := r_holding state, amount := r_amount state,
           asset := or_default (r_asset state) (remove_first ''USDT'' (symbol cfg)),
           quoteAsset := or_default (r_quoteAsset state) ''USDT''\<rparr>,
       entryPrice := r_entryPrice state, highestPrice := r_highestPrice state,
       lastPrice := r_lastPrice state, bot_dailyStats := r_dailyStats state,
       accountBalances := r_accountBalances state\<rparr>"

text \<open>The reset of the daily statistics on a new day; a profit of 0 is not archived.\<close>

definition rollover :: "environment \<Rightarrow> dailyStats \<Rightarrow> dailyStats" where
  "rollover env st =
     st\<lparr>dailyProfits :=
           (if profit st \<noteq> 0
            then dailyProfits st @ [(isoDate env (startTime st), profit st)]
            else dailyProfits st),
        trades := 0, profit := 0, startTime := now env\<rparr>"

definition connectAndSyncDb :: "environment \<Rightarrow> system \<Rightarrow> outcome" where
  "connectAndSyncDb env sys =
     (if db_connect_ok env then Running sys
      else handleCriticalError (DatabaseError ''sync'')
             ''Falha ao conectar ou sincronizar o banco de dados.'' None sys)"

definition loadState_try :: "environment \<Rightarrow> system \<Rightarrow> (error \<times> system) + system" where
  "loadState_try env sys =
     (if \<not> db_read_ok env then Inl (DatabaseError ''findOne'', sys)
      else
        case botStateRow (database sys) of
          Some state \<Rightarrow>
            let sys1 = sys\<lparr>bot := apply_row (config sys) state (bot sys)\<rparr>;
                st = bot_dailyStats (bot sys1)
            in if localDate env (now env) \<noteq> localDate env (startTime st)
               then Inr (saveState env
                           (sys1\<lparr>bot := (bot sys1)\<lparr>bot_dailyStats := rollover env st\<rparr>\<rparr>))
               else Inr sys1
        | None \<Rightarrow>
            Inr (saveState env
                   (sys\<lparr>bot := (bot sys)\<lparr>bot_dailyStats :=
                                   (bot_dailyStats (bot sys))\<lparr>startTime := now env\<rparr>\<rparr>\<rparr>)))"

definition loadState :: "environment \<Rightarrow> system \<Rightarrow> outcome" where
  "loadState env sys =
     (case connectAndSyncDb env
             (sys\<lparr>stateManager := (stateManager sys)\<lparr>botInstance := True\<rparr>\<rparr>) of
        Exited c s \<Rightarrow> Exited c s
      | Running s \<Rightarrow>
          (case loadState_try env s of
             Inr s' \<Rightarrow> Running s'
           | Inl (e, s') \<Rightarrow>
               handleCriticalError e ''Falha ao carregar estado do bot do banco de dados.''
                 None s'))"

section \<open>Observations and example states\<close>

fun exit_code :: "outcome \<Rightarrow> nat option" where
  "exit_code (Running s) = None"
| "exit_code (Exited c s) = Some c"

fun final_system :: "outcome \<Rightarrow> system" where
  "final_system (Running s) = s"
| "final_system (Exited c s) = s"


text \<open>
  A signal processor is cold while it holds fewer than \<open>longMASize\<close> prices and no
  average: the state of a new processor, and the state \<open>calculateMovingAverages\<close> resets to.
\<close>

definition cold :: "SignalProcessor \<Rightarrow> bool" where
  "cold sp = (length (prices sp) < sp_longMASize sp \<and> shortMA sp = [] \<and> longMA sp = [])"

text \<open>
  The defaults of \<open>loadConfig\<close>, and a BTCUSDT position bought at 100. A decimal that is
  not a double stands for the double nearest to it, as \<open>parseFloat\<close> reads it: \<open>dbl (1 / 100)\<close>
  is the number JavaScript writes \<open>0.01\<close>; the take-profit and the trailing-stop percentage
  are \<open>0.02\<close> and \<open>0.005\<close>.
\<close>

definition example_config :: strategy where
  "example_config =
     \<lparr>symbol = ''BTCUSDT'', shortMASize = 10, longMASize = 30, investmentAmount = 10,
      stopLossPercentage = dbl (1 / 100), takeProfitPercentage = dbl (1 / 50),
      trailingStopPercentage = dbl (1 / 200), pricePrecision = 2, quantityPrecision = 5,
      initialCapital = None\<rparr>"

definition example_symbolInfo :: symbol_info where
  "example_symbolInfo =
     \<lparr>si_symbol = ''BTCUSDT'',
      filters =
        [\<lparr>filterType = ''PRICE_FILTER'', tickSize = dbl (1 / 100), stepSize = 0,
          minNotional = 0\<rparr>,
         \<lparr>filterType = ''LOT_SIZE'', tickSize = 0, stepSize = dbl (1 / 1000),
          minNotional = 0\<rparr>,
         \<lparr>filterType = ''MIN_NOTIONAL'', tickSize = 0, stepSize = 0, minNotional = 10\<rparr>]\<rparr>"

definition example_executor :: TradeExecutor where
  "example_executor =
     (TradeExecutor_new example_config)\<lparr>te_symbolInfo := Some example_symbolInfo\<rparr>"

text \<open>The same executor with a quantity precision of 2 digits.\<close>

definition example_executor_coarse :: TradeExecutor where
  "example_executor_coarse = example_executor\<lparr>te_quantityPrecision := 2\<rparr>"

definition example_bot :: bot where
  "example_bot =
     \<lparr>isInitialized = True,
      position = \<lparr>holding = True, amount = 1 / 2, asset = ''BTC'', quoteAsset = ''USDT''\<rparr>,
      entryPrice = 100, highestPrice = 100, lastPrice = 100,
      bot_dailyStats = \<lparr>trades = 1, profit = 0, startTime = 0, dailyProfits = []\<rparr>,
      accountBalances = [''BTC'' \<mapsto> \<lparr>free = 1 / 2, locked = 0\<rparr>,
                         ''USDT'' \<mapsto> \<lparr>free = 0, locked = 0\<rparr>],
      bot_symbolInfo = example_symbolInfo\<rparr>"

definition example_system :: system where
  "example_system =
     \<lparr>config = example_config, telegramEnabled = False, bot = example_bot,
      signalProcessor = SignalProcessor_new example_config,
      riskManager = \<lparr>maxDailyLossPercentage = 5 / 100, maxDailyTrades = 5\<rparr>,
      tradeExecutor = TradeExecutor_new example_config,
      stateManager = \<lparr>botId = ''main_bot_instance'', botInstance = True\<rparr>,
      database = \<lparr>botStateRow = None, tradeRows = []\<rparr>,
      trace = []\<rparr>"

text \<open>The same system with a trailing stop of 0.\<close>

definition example_system_no_trailing :: system where
  "example_system_no_trailing =
     example_system\<lparr>config := example_config\<lparr>trailingStopPercentage := 0\<rparr>\<rparr>"

text \<open>
  A persisted state whose day started at timestamp 0 with a profit of \<open>p\<close>, loaded one
  day later (timestamps in milliseconds, the calendar that of UTC in January 1970).
\<close>

definition example_row :: "real \<Rightarrow> bot_state_row" where
  "example_row p =
     \<lparr>r_holding = False, r_amount = 0, r_asset = Some ''BTC'', r_quoteAsset = Some ''USDT'',
      r_entryPrice = 0, r_highestPrice = 0, r_lastPrice = 100,
      r_dailyStats = \<lparr>trades = 3, profit = p, startTime = 0, dailyProfits = []\<rparr>,
      r_accountBalances = Map.empty\<rparr>"

definition example_system_persisted :: "real \<Rightarrow> system" where
  "example_system_persisted p =
     example_system\<lparr>database := \<lparr>botStateRow = Some (example_row p), tradeRows = []\<rparr>\<rparr>"

definition example_env :: "(order_request \<Rightarrow> error + order_response) \<Rightarrow> environment" where
  "example_env answer =
     \<lparr>createOrder = answer, db_connect_ok = True, db_read_ok = True, db_write_ok = True,
      now = 86400000, localDate = (\<lambda>t. (nat (t div 86400000) + 1, 0, 1970)),
      isoDate = (\<lambda>t. if t div 86400000 = 0 then ''1970-01-01'' else ''1970-01-02'')\<rparr>"

text \<open>An exchange call that times out, and one that fills the whole order at price \<open>p\<close>.\<close>

definition exchange_rejects :: "order_request \<Rightarrow> error + order_response" where
  "exchange_rejects req = Inl (ExchangeError ''timeout'')"

definition exchange_fills :: "real \<Rightarrow> order_request \<Rightarrow> error + order_response" where
  "exchange_fills p req =
     (let q = (case or_quantity req of Finite x \<Rightarrow> x | _ \<Rightarrow> 0)
      in Inr \<lparr>orderId = ''1001'', executedQty = q, cummulativeQuoteQty = q * p,
               status = ''FILLED''\<rparr>)"

section \<open>Auxiliary facts\<close>

lemmas example_defs = example_config_def example_symbolInfo_def example_bot_def
  example_system_def example_env_def exchange_rejects_def exchange_fills_def
  SignalProcessor_new_def TradeExecutor_new_def

lemmas double_defs = fl_def dbl_def pow2_def round_half_even_def

lemmas exit_defs = checkExitConditions_def currentProfitLossPercentage_def
  trailingStopPrice_def

lemmas engine_defs = processNewPrice_def processNewPrice_try_def tick_exitAction_def
  exit_step_def entry_step_def update_highestPrice_def executeSellOrder_def
  executeSellOrder_try_def executeBuyOrder_def executeBuyOrder_try_def applyExchangeFilter_def
  below_min_notional_def set_orderInProgress_def setSymbolInfo_def
  saveState_def saveTrade_def updateDailyStats_def read_member_def
  stateManager_position_def emit_def processPrice_def calculateMovingAverages_def
  checkSignal_def push_bounded_def row_of_bot_def handleCriticalError_def
  checkDailyRiskLimits_def

lemmas load_defs = loadState_def loadState_try_def connectAndSyncDb_def apply_row_def
  rollover_def or_default_def saveState_def row_of_bot_def emit_def handleCriticalError_def

subsection \<open>Double arithmetic at the values of the examples\<close>

text \<open>The search for the binary exponent, unfolded on a numeral bound.\<close>

lemma binexp_numeral [simp]:
  "binexp (numeral n) a =
     (if 2 \<le> a then binexp (pred_numeral n) (a / 2) + 1
      else if a < 1 then binexp (pred_numeral n) (a * 2) - 1
      else 0)"
  by (simp add: numeral_eq_Suc)


lemma exit_at_97:
  "holding pos \<Longrightarrow>
     checkExitConditions pos 100 100 97 (dbl (1 / 100)) tp ts
       = Some \<lparr>reason = STOP_LOSS, price = 97\<rparr>"
  by (simp add: exit_defs double_defs Let_def)

lemma exit_at_101_no_trailing:
  "holding pos \<Longrightarrow>
     checkExitConditions pos 100 100 101 (dbl (1 / 100)) (dbl (1 / 50)) 0 = None"
  by (simp add: exit_defs double_defs Let_def)

lemma exit_at_101_high_101_no_trailing:
  "holding pos \<Longrightarrow>
     checkExitConditions pos 100 101 101 (dbl (1 / 100)) (dbl (1 / 50)) 0
       = Some \<lparr>reason = TRAILING_STOP, price = 101\<rparr>"
  by (simp add: exit_defs double_defs Let_def)

lemma exit_at_101:
  "holding pos \<Longrightarrow>
     checkExitConditions pos 100 100 101 (dbl (1 / 100)) (dbl (1 / 50)) (dbl (1 / 200)) = None"
  by (simp add: exit_defs double_defs Let_def)

text \<open>
  The profit-and-loss fraction at the prices \<open>97.9\<close> and \<open>98.1\<close> for an entry at 100,
  against minus \<open>0.02\<close>.
\<close>

lemma stop_loss_at_97_9:
  "js_le (currentProfitLossPercentage (dbl (979 / 10)) 100) (Finite (- dbl (1 / 50)))"
  by (simp add: currentProfitLossPercentage_def double_defs Let_def)

lemma no_stop_loss_at_98_1:
  "\<not> js_le (currentProfitLossPercentage (dbl (981 / 10)) 100) (Finite (- dbl (1 / 50)))"
  by (simp add: currentProfitLossPercentage_def double_defs Let_def)

text \<open>Quantities quantized to the step \<open>0.001\<close>, with 5 and with 2 digits.\<close>

lemma quantize_half:
  "toFixed (floor_to_step (Finite (1 / 2)) (dbl (1 / 1000))) 5 = Finite (1 / 2)"
  by (simp add: floor_to_step_def double_defs Let_def)

lemma notional_half_at_97: "fl (97 / 2) = Finite (97 / 2)"
  by (simp add: double_defs Let_def)

lemma quantize_1_23456:
  "toFixed (floor_to_step (Finite (dbl (123456 / 100000))) (dbl (1 / 1000))) 5
     = Finite (dbl (1234 / 1000))"
  by (simp add: floor_to_step_def double_defs Let_def)

lemma quantize_0_0009:
  "toFixed (floor_to_step (Finite (dbl (9 / 10000))) (dbl (1 / 1000))) 5 = Finite 0"
  by (simp add: floor_to_step_def double_defs Let_def)

lemma quantize_1_23456_coarse:
  "toFixed (floor_to_step (Finite (dbl (123456 / 100000))) (dbl (1 / 1000))) 2
     = Finite (dbl (123 / 100))"
  by (simp add: floor_to_step_def double_defs Let_def)

lemma quantize_eighth_coarse:
  "toFixed (floor_to_step (Finite (1 / 8)) (dbl (1 / 1000))) 2 = Finite (dbl (13 / 100))"
  by (simp add: floor_to_step_def double_defs Let_def)

lemma eighth_plus_step: "(1 / 8 :: real) + dbl (1 / 1000) < dbl (13 / 100)"
  by (simp add: double_defs Let_def)

text \<open>
  Where double arithmetic and exact arithmetic part: a stop loss taken at a price whose
  exact loss is just short of the percentage, a quantity on the grid of the step that
  loses a step, and a step of 0.
\<close>

lemma stop_loss_at_rounded_boundary:
  "holding pos \<Longrightarrow>
     map_option reason
       (checkExitConditions pos (dbl (1029 / 100)) (dbl (1029 / 100)) (dbl (101871 / 10000))
          (dbl (1 / 100)) (dbl (1 / 50)) (dbl (1 / 200))) = Some STOP_LOSS"
  by (simp add: exit_defs double_defs Let_def)

lemma quantize_on_grid_loses_step:
  "toFixed (floor_to_step (Finite (dbl (1001 / 1000))) (dbl (1 / 1000))) 5 = Finite 1"
  by (simp add: floor_to_step_def double_defs Let_def)

lemma quantize_step_zero: "toFixed (floor_to_step (Finite 1) 0) 5 = NaN"
  by (simp add: floor_to_step_def)

subsection \<open>Moving averages\<close>

lemma foldl_add_sum_list: "foldl (\<lambda>s v. s + v) a xs = a + sum_list (xs :: real list)"
  by (induction xs arbitrary: a) simp_all

lemma ema_loop_foldl: "ema_loop data k i ema = foldl (ema_step k) ema (drop i data)"
proof (induction data k i ema rule: ema_loop.induct)
  case (1 data k i ema)
  show ?case
  proof (cases "i < length data")
    case True
    then have "drop i data = data ! i # drop (Suc i) data"
      by (simp add: Cons_nth_drop_Suc)
    with True 1 show ?thesis
      by (subst ema_loop.simps) simp
  next
    case False
    then show ?thesis by (subst ema_loop.simps) simp
  qed
qed

lemma calculateEMA_unfold:
  assumes "0 < period" "period \<le> length data"
  shows "calculateEMA data data period =
     foldl (ema_step (2 / (real period + 1)))
       (sum_list (drop (length data - period) data) / real period) (tl data)"
  using assms
  by (simp add: calculateEMA_def Let_def ema_loop_foldl foldl_add_sum_list slice_last_def
      drop_Suc)

subsection \<open>Cold start of the signal processor\<close>

lemma processPrice_cold:
  assumes "cold sp"
  shows "fst (processPrice sp p) = None"
  using assms
  by (auto simp add: cold_def processPrice_def Let_def calculateMovingAverages_def
      checkSignal_def push_bounded_def)

lemma processPrice_stays_cold:
  assumes "cold sp" "Suc (length (prices sp)) < sp_longMASize sp"
  shows "cold (snd (processPrice sp p))"
    and "length (prices (snd (processPrice sp p))) = Suc (length (prices sp))"
    and "sp_longMASize (snd (processPrice sp p)) = sp_longMASize sp"
  using assms
  by (simp_all add: cold_def processPrice_def Let_def calculateMovingAverages_def
      push_bounded_def)

lemma feed_prices_cold:
  "cold sp \<Longrightarrow> i < length ps \<Longrightarrow> length (prices sp) + i < sp_longMASize sp
     \<Longrightarrow> feed_prices sp ps ! i = None"
proof (induction ps arbitrary: sp i)
  case Nil
  then show ?case by simp
next
  case (Cons p ps)
  show ?case
  proof (cases i)
    case 0
    then show ?thesis using processPrice_cold[OF Cons.prems(1)] by simp
  next
    case (Suc j)
    have short: "Suc (length (prices sp)) < sp_longMASize sp"
      using Cons.prems(3) Suc by simp
    have "feed_prices (snd (processPrice sp p)) ps ! j = None"
      using Cons.prems Suc processPrice_stays_cold[OF Cons.prems(1) short, of p]
      by (intro Cons.IH) simp_all
    then show ?thesis using Suc by simp
  qed
qed

lemma initializeData_cold:
  assumes "length hist < longMASize cfg"
  shows "cold (initializeData (SignalProcessor_new cfg) hist)"
    and "prices (initializeData (SignalProcessor_new cfg) hist) = hist"
    and "sp_longMASize (initializeData (SignalProcessor_new cfg) hist) = longMASize cfg"
  using assms
  by (auto simp add: cold_def initializeData_def SignalProcessor_new_def Let_def
      calculateMovingAverages_def)

subsection \<open>Selling\<close>

text \<open>
  The \<open>try\<close> block of \<open>executeSellOrder\<close> has no path that returns a result: after the
  exchange has answered, the read of \<open>this.stateManager.position.entryPrice\<close> throws.
\<close>

lemma executeSellOrder_try_no_success:
  "executeSellOrder_try env pos p availB rsn sys = Inr (r, s) \<Longrightarrow> r = None"
  by (auto simp add: executeSellOrder_try_def Let_def read_member_def stateManager_position_def
      split: if_splits sum.splits)

lemma executeSellOrder_returns_null:
  "fst (executeSellOrder env pos p si availB rsn sys) = None"
  by (auto simp add: executeSellOrder_def Let_def split: sum.splits prod.splits
      dest: executeSellOrder_try_no_success)

subsection \<open>Loading the state\<close>

lemma loadState_rollover:
  assumes "db_connect_ok env" "db_read_ok env"
      and "botStateRow (database sys) = Some state"
      and "localDate env (now env) \<noteq> localDate env (startTime (r_dailyStats state))"
  shows "loadState env sys =
     Running (saveState env
       (sys\<lparr>stateManager := (stateManager sys)\<lparr>botInstance := True\<rparr>,
            bot := (apply_row (config sys) state (bot sys))
                     \<lparr>bot_dailyStats := rollover env (r_dailyStats state)\<rparr>\<rparr>))"
  using assms
  by (simp add: loadState_def loadState_try_def connectAndSyncDb_def apply_row_def Let_def)

lemma loadState_same_day:
  assumes "db_connect_ok env" "db_read_ok env"
      and "botStateRow (database sys) = Some state"
      and "localDate env (now env) = localDate env (startTime (r_dailyStats state))"
  shows "loadState env sys =
     Running (sys\<lparr>stateManager := (stateManager sys)\<lparr>botInstance := True\<rparr>,
                 bot := apply_row (config sys) state (bot sys)\<rparr>)"
  using assms
  by (simp add: loadState_def loadState_try_def connectAndSyncDb_def apply_row_def Let_def)

lemma tick_exitAction_signalProcessor [simp]:
  "tick_exitAction (sys\<lparr>signalProcessor := sp\<rparr>) = tick_exitAction sys"
  by (simp add: tick_exitAction_def)

subsection \<open>The steps of a price event\<close>

text \<open>
  Saving and trading leave the bot's own fields alone; with both balances loaded no step
  of a price event throws, and the balances stay loaded.
\<close>

lemma bot_saveState [simp]: "bot (saveState env sys) = bot sys"
  by (simp add: saveState_def emit_def Let_def)

lemma bot_saveTrade [simp]: "bot (saveTrade env t sys) = bot sys"
  by (simp add: saveTrade_def emit_def)

lemma bot_executeSellOrder [simp]:
  "bot (snd (executeSellOrder env pos p si availB rsn sys)) = bot sys"
  by (simp add: executeSellOrder_def executeSellOrder_try_def read_member_def
      stateManager_position_def set_orderInProgress_def setSymbolInfo_def emit_def Let_def
      split: sum.splits)







text \<open>
  The \<open>catch\<close> of \<open>processNewPrice\<close> itself: an error that reaches it is logged and handed
  to \<open>handleCriticalError\<close> without \<open>shouldExit\<close>, which ends the process.
\<close>

lemma processNewPrice_catch_exits:
  assumes "isInitialized (bot sys)"
      and "processNewPrice_try env (sys\<lparr>bot := (bot sys)\<lparr>lastPrice := close\<rparr>\<rparr>) = Inl (e, s)"
  shows "exit_code (processNewPrice env close sys) = Some 1"
  using assms
  by (simp add: processNewPrice_def handleCriticalError_def emit_def Let_def)

section \<open>The claims\<close>

subsection \<open>C1: a failed sell and the position\<close>

text \<open>
  C1 says that when the exit check fires and the sell call returns no fill, the position
  (\<open>holding\<close>, \<open>amount\<close>, \<open>entryPrice\<close>, \<open>highestPrice\<close>) stays as it was. The orchestrator
  does not read the result of \<open>executeSellOrder\<close>: with a position of 0.5 BTC entered at
  100, a price of 97 (stop loss of 1 percent) and an exchange call that times out, the sell
  returns null, the process keeps running, and the four fields are cleared all the same.
\<close>

theorem C1_position_cleared_after_failed_sell:
  "exit_code (processNewPrice (example_env exchange_rejects) 97 example_system) = None
   \<and> map_option reason
       (tick_exitAction (example_system\<lparr>bot := example_bot\<lparr>lastPrice := 97\<rparr>\<rparr>))
       = Some STOP_LOSS
   \<and> fst (executeSellOrder (example_env exchange_rejects) (position example_bot) 97
            example_symbolInfo (1 / 2) STOP_LOSS example_system) = None
   \<and> position (bot (final_system
        (processNewPrice (example_env exchange_rejects) 97 example_system)))
       = \<lparr>holding = False, amount = 0, asset = ''BTC'', quoteAsset = ''USDT''\<rparr>
   \<and> entryPrice (bot (final_system
        (processNewPrice (example_env exchange_rejects) 97 example_system))) = 0
   \<and> highestPrice (bot (final_system
        (processNewPrice (example_env exchange_rejects) 97 example_system))) = 0"
  by (simp add: example_defs engine_defs exit_at_97 quantize_half notional_half_at_97 Let_def)

subsection \<open>C2: an exception during a price event\<close>



subsection \<open>C3: the highest price and the exit check\<close>

text \<open>
  C3 says that a new high is written to \<open>highestPrice\<close> before the exit conditions are
  evaluated, so that it takes part in the trailing-stop calculation of the same tick. The
  orchestrator evaluates the exit conditions first, on the stored \<open>highestPrice\<close>, and
  updates it in its last step. With a trailing stop of 0, entry and stored high at 100 and
  a price of 101, the tick finds no exit, sends no order and ends holding with the high at
  101, while the exit check on the updated high 101 is TRAILING_STOP.
\<close>

theorem C3_exit_check_uses_stored_high:
  "exit_code (processNewPrice (example_env exchange_rejects) 101 example_system_no_trailing)
     = None
   \<and> holding (position (bot (final_system
        (processNewPrice (example_env exchange_rejects) 101 example_system_no_trailing))))
   \<and> highestPrice (bot (final_system
        (processNewPrice (example_env exchange_rejects) 101 example_system_no_trailing))) = 101
   \<and> trace (final_system
        (processNewPrice (example_env exchange_rejects) 101 example_system_no_trailing)) = []
   \<and> map_option reason
        (checkExitConditions (position example_bot) 100 101 101 (dbl (1 / 100)) (dbl (1 / 50)) 0)
       = Some TRAILING_STOP"
  by (simp add: example_system_no_trailing_def example_defs engine_defs exit_at_101_no_trailing
      exit_at_101_high_101_no_trailing Let_def)

text \<open>
  C3 as the code has it: in a tick processed while a position is held and with a price
  above the stored \<open>highestPrice\<close>, the exit conditions are evaluated on the stored value;
  when they give no exit, the tick ends with the position still held and \<open>highestPrice\<close>
  equal to the new price.
\<close>

theorem C3_highestPrice_updated_after_exit_check:
  assumes "isInitialized (bot sys)"
      and "holding (position (bot sys))"
      and "highestPrice (bot sys) < close"
  shows "tick_exitAction (sys\<lparr>bot := (bot sys)\<lparr>lastPrice := close\<rparr>\<rparr>)
           = checkExitConditions (position (bot sys)) (entryPrice (bot sys))
               (highestPrice (bot sys)) close (stopLossPercentage (config sys))
               (takeProfitPercentage (config sys)) (trailingStopPercentage (config sys))
       \<and> (tick_exitAction (sys\<lparr>bot := (bot sys)\<lparr>lastPrice := close\<rparr>\<rparr>) = None \<longrightarrow>
            exit_code (processNewPrice env close sys) = None
          \<and> holding (position (bot (final_system (processNewPrice env close sys))))
          \<and> highestPrice (bot (final_system (processNewPrice env close sys))) = close)"
proof (intro conjI impI)
  show "tick_exitAction (sys\<lparr>bot := (bot sys)\<lparr>lastPrice := close\<rparr>\<rparr>)
           = checkExitConditions (position (bot sys)) (entryPrice (bot sys))
               (highestPrice (bot sys)) close (stopLossPercentage (config sys))
               (takeProfitPercentage (config sys)) (trailingStopPercentage (config sys))"
    by (simp add: tick_exitAction_def)
next
  assume none: "tick_exitAction (sys\<lparr>bot := (bot sys)\<lparr>lastPrice := close\<rparr>\<rparr>) = None"
  have run: "processNewPrice env close sys =
      Running (sys\<lparr>bot := (bot sys)\<lparr>lastPrice := close, highestPrice := close\<rparr>,
                  signalProcessor := snd (processPrice (signalProcessor sys) close)\<rparr>)"
    using assms none
    by (simp add: processNewPrice_def processNewPrice_try_def exit_step_def entry_step_def
        update_highestPrice_def Let_def)
  show "exit_code (processNewPrice env close sys) = None" by (simp add: run)
  show "holding (position (bot (final_system (processNewPrice env close sys))))"
    using assms(2) by (simp add: run)
  show "highestPrice (bot (final_system (processNewPrice env close sys))) = close"
    by (simp add: run)
qed

text \<open>C3, the amended statement at the example position and the price 101.\<close>

theorem C3_highestPrice_updated_after_exit_check_witness:
  "isInitialized (bot example_system) \<and> holding (position (bot example_system))
   \<and> highestPrice (bot example_system) < 101
   \<and> tick_exitAction (example_system\<lparr>bot := (bot example_system)\<lparr>lastPrice := 101\<rparr>\<rparr>) = None
   \<and> exit_code (processNewPrice (example_env exchange_rejects) 101 example_system) = None
   \<and> highestPrice (bot (final_system
        (processNewPrice (example_env exchange_rejects) 101 example_system))) = 101"
proof -
  have h1: "isInitialized (bot example_system)"
    and h2: "holding (position (bot example_system))"
    and h3: "highestPrice (bot example_system) < 101"
    by (simp_all add: example_system_def example_bot_def)
  have h4: "tick_exitAction (example_system\<lparr>bot := (bot example_system)\<lparr>lastPrice := 101\<rparr>\<rparr>)
              = None"
    by (simp add: tick_exitAction_def example_system_def example_bot_def example_config_def
        exit_at_101)
  show ?thesis
    using h1 h2 h3 h4
      C3_highestPrice_updated_after_exit_check
        [OF h1 h2 h3, of "example_env exchange_rejects"]
    by simp
qed

subsection \<open>C4: the profit of a sell\<close>

text \<open>
  C4 says that a sell whose order the exchange fills returns the realized profit
  \<open>(avgFillPrice - entryPrice) * executedQuantity\<close> and records the fill as a Trade before it
  returns success. \<open>executeSellOrder\<close> reads the entry price from
  \<open>this.stateManager.position\<close>, a property the StateManager does not have: with the
  example position and an exchange that fills the order at 97, the order is sent, the read
  throws, the \<open>catch\<close> logs a failed sell and returns null; no Trade is recorded and the
  daily statistics are not updated.
\<close>

theorem C4_filled_sell_returns_null:
  "fst (executeSellOrder (example_env (exchange_fills 97)) (position example_bot) 97
          example_symbolInfo (1 / 2) STOP_LOSS example_system) = None
   \<and> trace (snd (executeSellOrder (example_env (exchange_fills 97)) (position example_bot) 97
          example_symbolInfo (1 / 2) STOP_LOSS example_system))
       = [OrderSent \<lparr>or_symbol = ''BTCUSDT'', or_side = ''SELL'', or_type = ''MARKET'',
                      or_quantity = Finite (1 / 2)\<rparr>,
          ErrorLogged ''Falha ao executar ordem de VENDA'']
   \<and> tradeRows (database (snd (executeSellOrder (example_env (exchange_fills 97))
          (position example_bot) 97 example_symbolInfo (1 / 2) STOP_LOSS example_system))) = []
   \<and> bot_dailyStats (bot (snd (executeSellOrder (example_env (exchange_fills 97))
          (position example_bot) 97 example_symbolInfo (1 / 2) STOP_LOSS example_system)))
       = bot_dailyStats example_bot"
  by (simp add: example_defs engine_defs quantize_half notional_half_at_97 Let_def)

subsection \<open>C5: the seed of the exponential average\<close>

text \<open>
  C5 says that the exponential average of a sequence of at least \<open>period\<close> prices is seeded
  with the simple average of the first \<open>period\<close> prices and that the recurrence is then
  applied to the prices after them (\<open>spec_calculateEMA\<close>). For the prices 1, 2, 3 and the
  period 2 that value is 5/2; \<open>calculateEMA\<close> returns 49/18.
\<close>

theorem C5_seed_differs_from_spec:
  "calculateEMA [1, 2, 3] [1, 2, 3] 2 = 49 / 18
   \<and> spec_calculateEMA [1, 2, 3] 2 = 5 / 2
   \<and> calculateEMA [1, 2, 3] [1, 2, 3] 2 \<noteq> spec_calculateEMA [1, 2, 3] 2"
  by (simp add: calculateEMA_unfold spec_calculateEMA_def ema_step_def)

text \<open>
  C5 as the code has it: for a positive \<open>period\<close> and a sequence of at least \<open>period\<close>
  prices (the processor's own buffer, as in every call), \<open>calculateEMA\<close> seeds the average
  with the simple average of the last \<open>period\<close> prices and then applies the recurrence
  \<open>ema := price * k + ema * (1 - k)\<close>, \<open>k = 2 / (period + 1)\<close>, to every price but the first.
\<close>

theorem C5_seed_is_average_of_last_period:
  assumes "0 < period" and "period \<le> length data"
  shows "calculateEMA data data period =
           foldl (ema_step (2 / (real period + 1)))
             (sum_list (drop (length data - period) data) / real period) (tl data)"
  using assms by (rule calculateEMA_unfold)

text \<open>C5, the amended statement for the prices 1, 2, 3 and the period 2.\<close>

theorem C5_seed_is_average_of_last_period_witness:
  "(0::nat) < 2 \<and> 2 \<le> length [1, 2, 3 :: real]
   \<and> calculateEMA [1, 2, 3] [1, 2, 3] 2 = ema_step (2 / 3) (ema_step (2 / 3) ((2 + 3) / 2) 2) 3"
  using C5_seed_is_average_of_last_period [of 2 "[1, 2, 3]"] by simp

subsection \<open>C6: one order in flight\<close>

text \<open>
  C6: a buy or sell call made while the in-flight flag is set returns null at once and
  leaves the whole system as it was (no order is sent, the trace is unchanged, the flag
  stays with the call that set it); a call made while the flag is clear returns with the
  flag clear, whatever the exchange answers and whichever path the call takes (success,
  rejection by a check, or an error caught).
\<close>

theorem C6_single_flight:
  "(orderInProgress (tradeExecutor sys) \<longrightarrow>
      executeBuyOrder env pair amt p si availQ sys = (None, sys)
    \<and> executeSellOrder env pos p si availB rsn sys = (None, sys))
   \<and> (\<not> orderInProgress (tradeExecutor sys) \<longrightarrow>
      \<not> orderInProgress (tradeExecutor (snd (executeBuyOrder env pair amt p si availQ sys)))
    \<and> \<not> orderInProgress (tradeExecutor (snd (executeSellOrder env pos p si availB rsn sys))))"
  by (simp add: executeBuyOrder_def executeSellOrder_def set_orderInProgress_def Let_def
      split: prod.splits sum.splits)

text \<open>C6 at the example system, idle and with an order in flight.\<close>

theorem C6_single_flight_witness:
  "\<not> orderInProgress (tradeExecutor example_system)
   \<and> \<not> orderInProgress (tradeExecutor (snd (executeSellOrder (example_env (exchange_fills 97))
          (position example_bot) 97 example_symbolInfo (1 / 2) STOP_LOSS example_system)))
   \<and> \<not> orderInProgress (tradeExecutor (snd (executeBuyOrder (example_env (exchange_fills 97))
          ''BTCUSDT'' 10 97 example_symbolInfo 50 example_system)))
   \<and> orderInProgress (tradeExecutor (set_orderInProgress True example_system))
   \<and> executeSellOrder (example_env (exchange_fills 97)) (position example_bot) 97
        example_symbolInfo (1 / 2) STOP_LOSS (set_orderInProgress True example_system)
       = (None, set_orderInProgress True example_system)
   \<and> executeBuyOrder (example_env (exchange_fills 97)) ''BTCUSDT'' 10 97 example_symbolInfo 50
        (set_orderInProgress True example_system)
       = (None, set_orderInProgress True example_system)"
  using C6_single_flight
          [of example_system "example_env (exchange_fills 97)" "''BTCUSDT''" 10 97
              example_symbolInfo 50 "position example_bot" "1 / 2" STOP_LOSS]
        C6_single_flight
          [of "set_orderInProgress True example_system" "example_env (exchange_fills 97)"
              "''BTCUSDT''" 10 97 example_symbolInfo 50 "position example_bot" "1 / 2" STOP_LOSS]
  by (simp add: set_orderInProgress_def example_system_def TradeExecutor_new_def)

subsection \<open>C7: the day rollover on load\<close>

text \<open>
  C7 says that every load of a state persisted on another calendar date archives the
  persisted day's profit in the historical list. \<open>loadState\<close> archives it only when it is
  not 0: a state persisted with 3 trades and a profit of 0, loaded a day later, comes back
  with the counters reset and the historical list still empty.
\<close>

theorem C7_zero_profit_not_archived:
  "exit_code (loadState (example_env exchange_rejects) (example_system_persisted 0)) = None
   \<and> bot_dailyStats (bot (final_system
        (loadState (example_env exchange_rejects) (example_system_persisted 0))))
       = \<lparr>trades = 0, profit = 0, startTime = 86400000, dailyProfits = []\<rparr>"
  by (simp add: example_system_persisted_def example_row_def example_defs load_defs Let_def)

text \<open>
  C7 as the code has it: when the database answers and the persisted day-start timestamp
  falls on another calendar date than the current one, \<open>loadState\<close> returns with trade
  count 0, profit 0, the current time as start timestamp, and the historical list extended
  by the persisted day's date and profit when that profit is not 0 (unchanged when it is
  0); the row in the database is then the reset state. A further load at any time of the
  same calendar date finds that row, resets nothing and writes nothing: the rollover
  happens once.
\<close>

theorem C7_rollover_once:
  assumes "db_connect_ok env" "db_read_ok env" "db_write_ok env"
      and "botStateRow (database sys) = Some state"
      and "localDate env (now env) \<noteq> localDate env (startTime (r_dailyStats state))"
  shows "exit_code (loadState env sys) = None
       \<and> bot_dailyStats (bot (final_system (loadState env sys)))
           = \<lparr>trades = 0, profit = 0, startTime = now env,
              dailyProfits =
                (if profit (r_dailyStats state) \<noteq> 0
                 then dailyProfits (r_dailyStats state)
                        @ [(isoDate env (startTime (r_dailyStats state)),
                            profit (r_dailyStats state))]
                 else dailyProfits (r_dailyStats state))\<rparr>
       \<and> botStateRow (database (final_system (loadState env sys)))
           = Some (row_of_bot (bot (final_system (loadState env sys))))
       \<and> (db_connect_ok env2 \<and> db_read_ok env2
            \<and> localDate env2 (now env2) = localDate env2 (now env) \<longrightarrow>
            exit_code (loadState env2 (final_system (loadState env sys))) = None
          \<and> bot_dailyStats
               (bot (final_system (loadState env2 (final_system (loadState env sys)))))
              = bot_dailyStats (bot (final_system (loadState env sys)))
          \<and> database (final_system (loadState env2 (final_system (loadState env sys))))
              = database (final_system (loadState env sys)))"
proof -
  define s1 where "s1 = saveState env
       (sys\<lparr>stateManager := (stateManager sys)\<lparr>botInstance := True\<rparr>,
            bot := (apply_row (config sys) state (bot sys))
                     \<lparr>bot_dailyStats := rollover env (r_dailyStats state)\<rparr>\<rparr>)"
  have l1: "loadState env sys = Running s1"
    unfolding s1_def by (rule loadState_rollover[OF assms(1,2,4,5)])
  have stats: "bot_dailyStats (bot s1) = rollover env (r_dailyStats state)"
    using assms(3) by (simp add: s1_def saveState_def Let_def)
  have row: "botStateRow (database s1) = Some (row_of_bot (bot s1))"
    using assms(3) by (simp add: s1_def saveState_def Let_def)
  have rstats: "r_dailyStats (row_of_bot (bot s1)) = rollover env (r_dailyStats state)"
    using stats by (simp add: row_of_bot_def)
  have start: "startTime (rollover env (r_dailyStats state)) = now env"
    by (simp add: rollover_def)
  have second: "loadState env2 s1 =
      Running (s1\<lparr>stateManager := (stateManager s1)\<lparr>botInstance := True\<rparr>,
                  bot := apply_row (config s1) (row_of_bot (bot s1)) (bot s1)\<rparr>)"
    if "db_connect_ok env2" "db_read_ok env2"
       "localDate env2 (now env2) = localDate env2 (now env)"
    using that by (intro loadState_same_day[OF _ _ row]) (simp_all add: rstats start)
  show ?thesis
    apply (intro conjI impI)
    subgoal by (simp add: l1)
    subgoal by (simp add: l1 stats rollover_def)
    subgoal by (simp add: l1 row)
    subgoal by (simp add: l1 second)
    subgoal by (simp add: l1 second apply_row_def row_of_bot_def)
    subgoal by (simp add: l1 second)
    done
qed

text \<open>C7, the amended statement for a persisted profit of 5, loaded twice on the next day.\<close>

theorem C7_rollover_once_witness:
  "localDate (example_env exchange_rejects) (now (example_env exchange_rejects))
     \<noteq> localDate (example_env exchange_rejects) (startTime (r_dailyStats (example_row 5)))
   \<and> bot_dailyStats (bot (final_system
        (loadState (example_env exchange_rejects) (example_system_persisted 5))))
       = \<lparr>trades = 0, profit = 0, startTime = 86400000, dailyProfits = [(''1970-01-01'', 5)]\<rparr>
   \<and> bot_dailyStats (bot (final_system (loadState (example_env exchange_rejects)
        (final_system (loadState (example_env exchange_rejects) (example_system_persisted 5))))))
       = \<lparr>trades = 0, profit = 0, startTime = 86400000, dailyProfits = [(''1970-01-01'', 5)]\<rparr>"
  using C7_rollover_once
          [of "example_env exchange_rejects" "example_system_persisted 5" "example_row 5"
              "example_env exchange_rejects"]
  by (simp add: example_env_def example_system_persisted_def example_row_def)

subsection \<open>C8: the exit conditions\<close>

text \<open>
  C8 compares the profit-and-loss fraction with the configured stop-loss threshold, a
  negative number: with an entry price of 100 and a stop loss of \<open>-0.02\<close>, the price
  \<open>98.1\<close> is not to trigger STOP_LOSS. \<open>checkExitConditions\<close> compares with the negated
  parameter: given \<open>-0.02\<close> it answers STOP_LOSS at \<open>98.1\<close>.
\<close>

theorem C8_negative_stop_loss_parameter:
  "map_option reason
     (checkExitConditions \<lparr>holding = True, amount = 1, asset = ''BTC'', quoteAsset = ''USDT''\<rparr>
        100 100 (dbl (981 / 10)) (- dbl (1 / 50)) (dbl (1 / 50)) (dbl (1 / 200))) = Some STOP_LOSS"
  by (simp add: exit_defs double_defs Let_def)

text \<open>
  C8 as the code has it, in double arithmetic and for every entry price: the exit check
  returns no exit when \<open>holding\<close> is false, and otherwise STOP_LOSS when the
  profit-and-loss fraction \<open>(currentPrice - entryPrice) / entryPrice\<close> is at most minus the
  stop-loss percentage (a positive fraction, \<open>0.02\<close> for 2 percent), else TAKE_PROFIT when
  it is at least the take-profit percentage, else TRAILING_STOP when the highest price is
  above the entry price and the current price is at most
  \<open>highestPrice * (1 - trailingStopPercentage)\<close>, else no exit. With an entry price of 100
  and a stop-loss percentage of \<open>0.02\<close>, a held position triggers STOP_LOSS at \<open>97.9\<close> and
  not at \<open>98.1\<close>.
\<close>

theorem C8_exit_order:
  "(\<not> holding pos \<longrightarrow> checkExitConditions pos entry highest current sl tp ts = None)
   \<and> (holding pos \<longrightarrow>
        checkExitConditions pos entry highest current sl tp ts =
          (if js_le (currentProfitLossPercentage current entry) (Finite (- sl))
           then Some \<lparr>reason = STOP_LOSS, price = current\<rparr>
           else if js_le (Finite tp) (currentProfitLossPercentage current entry)
           then Some \<lparr>reason = TAKE_PROFIT, price = current\<rparr>
           else if entry < highest \<and> js_le (Finite current) (trailingStopPrice highest ts)
           then Some \<lparr>reason = TRAILING_STOP, price = current\<rparr>
           else None)
      \<and> map_option reason
           (checkExitConditions pos 100 highest (dbl (979 / 10)) (dbl (1 / 50)) tp ts)
          = Some STOP_LOSS
      \<and> map_option reason
           (checkExitConditions pos 100 highest (dbl (981 / 10)) (dbl (1 / 50)) tp ts)
          \<noteq> Some STOP_LOSS)"
  using stop_loss_at_97_9 no_stop_loss_at_98_1
  by (auto simp add: checkExitConditions_def)

text \<open>C8, the amended statement at the example position, held and not held.\<close>

theorem C8_exit_order_witness:
  "holding (position example_bot)
   \<and> map_option reason
       (checkExitConditions (position example_bot) 100 100 (dbl (979 / 10)) (dbl (1 / 50))
          (dbl (1 / 50)) (dbl (1 / 200))) = Some STOP_LOSS
   \<and> map_option reason
       (checkExitConditions (position example_bot) 100 100 (dbl (981 / 10)) (dbl (1 / 50))
          (dbl (1 / 50)) (dbl (1 / 200))) \<noteq> Some STOP_LOSS
   \<and> \<not> holding ((position example_bot)\<lparr>holding := False\<rparr>)
   \<and> checkExitConditions ((position example_bot)\<lparr>holding := False\<rparr>) 100 100
        (dbl (979 / 10)) (dbl (1 / 50)) (dbl (1 / 50)) (dbl (1 / 200)) = None"
proof -
  have h: "holding (position example_bot)" by (simp add: example_bot_def)
  have nh: "\<not> holding ((position example_bot)\<lparr>holding := False\<rparr>)" by simp
  show ?thesis
    using h nh
      C8_exit_order [of "position example_bot" 100 100 "dbl (979 / 10)" "dbl (1 / 50)"
                        "dbl (1 / 50)" "dbl (1 / 200)"]
      C8_exit_order [of "(position example_bot)\<lparr>holding := False\<rparr>" 100 100
                        "dbl (979 / 10)" "dbl (1 / 50)" "dbl (1 / 50)" "dbl (1 / 200)"]
    by blast
qed

subsection \<open>C9: no signal during the cold start\<close>

text \<open>
  C9: with \<open>shortMASize < longMASize\<close>, a new signal processor, initialised with a history
  \<open>hist\<close> (possibly empty) and then fed the prices \<open>ps\<close> one by one, returns no signal
  for the observation with index \<open>i\<close> as long as fewer than \<open>longMASize\<close> prices were fed
  before it (\<open>length hist + i < longMASize\<close>); this covers every observation after which
  the total is still below \<open>longMASize\<close>.
\<close>

theorem C9_no_signal_before_longPeriod:
  assumes "shortMASize cfg < longMASize cfg"
      and "i < length ps"
      and "length hist + i < longMASize cfg"
  shows "feed_prices (initializeData (SignalProcessor_new cfg) hist) ps ! i = None"
proof -
  have h: "length hist < longMASize cfg" using assms(3) by simp
  show ?thesis
    using initializeData_cold[OF h] assms(2,3) by (intro feed_prices_cold) simp_all
qed

text \<open>C9 with the default periods 10 and 30, no history, and the third of three prices.\<close>

theorem C9_no_signal_before_longPeriod_witness:
  "shortMASize example_config < longMASize example_config
   \<and> (2::nat) < length [1, 2, 3 :: real]
   \<and> feed_prices (initializeData (SignalProcessor_new example_config) []) [1, 2, 3] ! 2 = None"
  using C9_no_signal_before_longPeriod [of example_config 2 "[1, 2, 3]" "[]"]
  by (simp add: example_config_def)

subsection \<open>C10: quantization to the step size\<close>

text \<open>
  C10 says that the quantization floors to the step and never rounds up to the next
  step. The last operation of \<open>applyExchangeFilter\<close> rounds to the display precision, to
  the nearest: with the step \<open>0.001\<close> and a precision of 2 digits, the quantity \<open>0.125\<close>
  becomes \<open>0.13\<close>, more than a step above the value.
\<close>

theorem C10_display_rounding_rounds_up:
  "applyExchangeFilter example_executor_coarse ''LOT_SIZE'' (Finite (1 / 8))
     = Finite (dbl (13 / 100))
   \<and> (1 / 8 :: real) + dbl (1 / 1000) < dbl (13 / 100)"
  using eighth_plus_step
  by (simp add: example_executor_coarse_def example_executor_def example_symbolInfo_def
      example_config_def TradeExecutor_new_def applyExchangeFilter_def quantize_eighth_coarse)

text \<open>
  C10 as the code has it: with the symbol's LOT_SIZE filter loaded, the applied quantity
  is \<open>Math.floor(value / stepSize) * stepSize\<close>, computed in double arithmetic and then
  rounded to the nearest multiple of \<open>10^-precision\<close> by \<open>toFixed\<close>. With the step
  \<open>0.001\<close> and the default precision of 5 digits, \<open>1.23456\<close> gives \<open>1.234\<close> and \<open>0.0009\<close>
  gives 0; with a precision of 2 digits, \<open>1.23456\<close> gives \<open>1.23\<close>.
\<close>

theorem C10_lot_size_quantization:
  assumes "te_symbolInfo ex = Some si"
      and "find (\<lambda>f. filterType f = ''LOT_SIZE'') (filters si) = Some f"
      and "te_quantityPrecision ex \<le> 100"
  shows "applyExchangeFilter ex ''LOT_SIZE'' v =
           toFixed (js_mul (js_floor (js_div v (Finite (stepSize f)))) (Finite (stepSize f)))
             (te_quantityPrecision ex)
       \<and> (stepSize f = dbl (1 / 1000) \<and> te_quantityPrecision ex = 5 \<longrightarrow>
            applyExchangeFilter ex ''LOT_SIZE'' (Finite (dbl (123456 / 100000)))
              = Finite (dbl (1234 / 1000))
          \<and> applyExchangeFilter ex ''LOT_SIZE'' (Finite (dbl (9 / 10000))) = Finite 0)
       \<and> (stepSize f = dbl (1 / 1000) \<and> te_quantityPrecision ex = 2 \<longrightarrow>
            applyExchangeFilter ex ''LOT_SIZE'' (Finite (dbl (123456 / 100000)))
              = Finite (dbl (123 / 100)))"
proof -
  have eq: "applyExchangeFilter ex ''LOT_SIZE'' w =
              toFixed (floor_to_step w (stepSize f)) (te_quantityPrecision ex)" for w
    using assms(1,2) by (simp add: applyExchangeFilter_def)
  show ?thesis
  proof (intro conjI impI)
    show "applyExchangeFilter ex ''LOT_SIZE'' v =
           toFixed (js_mul (js_floor (js_div v (Finite (stepSize f)))) (Finite (stepSize f)))
             (te_quantityPrecision ex)"
      unfolding eq floor_to_step_def by (rule refl)
  next
    assume h: "stepSize f = dbl (1 / 1000) \<and> te_quantityPrecision ex = 5"
    then have st: "stepSize f = dbl (1 / 1000)" and pr: "te_quantityPrecision ex = 5" by blast+
    show "applyExchangeFilter ex ''LOT_SIZE'' (Finite (dbl (123456 / 100000)))
            = Finite (dbl (1234 / 1000))"
      unfolding eq st pr by (rule quantize_1_23456)
    show "applyExchangeFilter ex ''LOT_SIZE'' (Finite (dbl (9 / 10000))) = Finite 0"
      unfolding eq st pr by (rule quantize_0_0009)
  next
    assume h: "stepSize f = dbl (1 / 1000) \<and> te_quantityPrecision ex = 2"
    then have st: "stepSize f = dbl (1 / 1000)" and pr: "te_quantityPrecision ex = 2" by blast+
    show "applyExchangeFilter ex ''LOT_SIZE'' (Finite (dbl (123456 / 100000)))
            = Finite (dbl (123 / 100))"
      unfolding eq st pr by (rule quantize_1_23456_coarse)
  qed
qed

text \<open>C10, the amended statement at the example executor, with 5 and with 2 digits.\<close>

theorem C10_lot_size_quantization_witness:
  "te_symbolInfo example_executor = Some example_symbolInfo
   \<and> te_quantityPrecision example_executor = 5
   \<and> applyExchangeFilter example_executor ''LOT_SIZE'' (Finite (dbl (123456 / 100000)))
       = Finite (dbl (1234 / 1000))
   \<and> applyExchangeFilter example_executor ''LOT_SIZE'' (Finite (dbl (9 / 10000))) = Finite 0
   \<and> te_quantityPrecision example_executor_coarse = 2
   \<and> applyExchangeFilter example_executor_coarse ''LOT_SIZE'' (Finite (dbl (123456 / 100000)))
       = Finite (dbl (123 / 100))"
  using C10_lot_size_quantization [of example_executor example_symbolInfo
          "\<lparr>filterType = ''LOT_SIZE'', tickSize = 0, stepSize = dbl (1 / 1000),
            minNotional = 0\<rparr>" "Finite 1"]
        C10_lot_size_quantization [of example_executor_coarse example_symbolInfo
          "\<lparr>filterType = ''LOT_SIZE'', tickSize = 0, stepSize = dbl (1 / 1000),
            minNotional = 0\<rparr>" "Finite 1"]
  by (simp add: example_executor_coarse_def example_executor_def example_symbolInfo_def
      TradeExecutor_new_def example_config_def)

end
